theory Spec2Isabelle
  imports Complex_Main "HOL-Library.Sublist" "HOL-Library.Char_ord" "HOL-Library.List_Lexorder"
    "HOL-Library.Product_Lexorder" "HOL-Library.Multiset"
begin

section \<open>Data model\<close>

text \<open>
  The dashboard script \<^verbatim>\<open>assignment.py\<close> works on pandas data frames. A frame is modelled
  as its ordered column labels together with its rows; every row holds one cell per column.
  A cell is a missing value (\<open>NaN\<close>, which also stands for \<open>NaT\<close>), a text, a number
  (prices and months; exact rationals stand for the floating-point values) or a calendar date
  (year, month, day). A series is a column of cells; the row labels of a frame are left out,
  since every series the script combines comes from the same frame and lines up by position.
\<close>

datatype cell = NaN | Str string | Num rat | Date nat nat nat

datatype error =
  KeyError | ValueError | IndexError | TypeError | AttributeError | StreamlitAPIException

type_synonym series = "cell list"

record frame =
  columns :: "string list"
  data :: "cell list list"

definition rectangular :: "frame \<Rightarrow> bool" where
  "rectangular df = list_all (\<lambda>r. length r = length (columns df)) (data df)"

text \<open>\<open>Index.get_loc\<close>: the position of a label.\<close>

fun get_loc :: "string \<Rightarrow> string list \<Rightarrow> nat option" where
  "get_loc n [] = None"
| "get_loc n (c # cs) = (if c = n then Some 0 else map_option Suc (get_loc n cs))"

text \<open>\<open>df[name]\<close>: the column of that name; a label that is not a column raises \<open>KeyError\<close>.\<close>

definition getitem :: "frame \<Rightarrow> string \<Rightarrow> error + series" where
  "getitem df n =
     (case get_loc n (columns df) of
        None \<Rightarrow> Inl KeyError
      | Some i \<Rightarrow> Inr (map (\<lambda>r. r ! i) (data df)))"

text \<open>\<open>Series.unique()\<close>: the distinct values in order of first appearance (a missing value
  counts as a value).\<close>

fun unique :: "'a list \<Rightarrow> 'a list" where
  "unique [] = []"
| "unique (x # xs) = x # unique (filter (\<lambda>y. y \<noteq> x) xs)"

section \<open>Loader\<close>

text \<open>
  \<open>df[name] = series\<close>: the column of that name is replaced, or the series is appended as a
  new last column; a series of another length raises \<open>ValueError\<close>.
\<close>

definition setitem :: "frame \<Rightarrow> string \<Rightarrow> series \<Rightarrow> error + frame" where
  "setitem df n s =
     (if length s \<noteq> length (data df) then Inl ValueError
      else case get_loc n (columns df) of
             Some i \<Rightarrow> Inr (df\<lparr>data := map2 (\<lambda>r v. r[i := v]) (data df) s\<rparr>)
           | None \<Rightarrow> Inr (df\<lparr>columns := columns df @ [n],
                              data := map2 (\<lambda>r v. r @ [v]) (data df) s\<rparr>))"

text \<open>Decimal digits and the number they write.\<close>

definition digit :: "char \<Rightarrow> bool" where
  "digit c = (CHR ''0'' \<le> c \<and> c \<le> CHR ''9'')"

definition digit_val :: "char \<Rightarrow> nat" where
  "digit_val c = of_char c - 48"

definition number_of :: "string \<Rightarrow> nat" where
  "number_of ds = foldl (\<lambda>n c. 10 * n + digit_val c) 0 ds"

text \<open>\<open>str.split(sep)\<close>.\<close>

fun split_on :: "char \<Rightarrow> string \<Rightarrow> string list" where
  "split_on sep [] = [[]]"
| "split_on sep (c # cs) =
     (if c = sep then [] # split_on sep cs
      else (c # hd (split_on sep cs)) # tl (split_on sep cs))"

text \<open>
  The directives of the format \<open>%d/%m/%Y\<close>, as the parser matches them:
  \<open>%d\<close> is \<open>3[0-1]|[1-2]\d|0[1-9]|[1-9]| [1-9]\<close>, \<open>%m\<close> is \<open>1[0-2]|0[1-9]|[1-9]\<close> and
  \<open>%Y\<close> is \<open>\d\d\d\d\<close>. Only ASCII digits are modelled.
\<close>

definition match_d :: "string \<Rightarrow> nat option" where
  "match_d s =
     (case s of
        [a] \<Rightarrow> if CHR ''1'' \<le> a \<and> a \<le> CHR ''9'' then Some (digit_val a) else None
      | [a, b] \<Rightarrow>
          if a = CHR ''3'' \<and> (b = CHR ''0'' \<or> b = CHR ''1'') then Some (number_of [a, b])
          else if (a = CHR ''1'' \<or> a = CHR ''2'') \<and> digit b then Some (number_of [a, b])
          else if (a = CHR ''0'' \<or> a = CHR '' '') \<and> CHR ''1'' \<le> b \<and> b \<le> CHR ''9''
          then Some (digit_val b)
          else None
      | _ \<Rightarrow> None)"

definition match_m :: "string \<Rightarrow> nat option" where
  "match_m s =
     (case s of
        [a] \<Rightarrow> if CHR ''1'' \<le> a \<and> a \<le> CHR ''9'' then Some (digit_val a) else None
      | [a, b] \<Rightarrow>
          if a = CHR ''1'' \<and> (b = CHR ''0'' \<or> b = CHR ''1'' \<or> b = CHR ''2'')
          then Some (number_of [a, b])
          else if a = CHR ''0'' \<and> CHR ''1'' \<le> b \<and> b \<le> CHR ''9'' then Some (digit_val b)
          else None
      | _ \<Rightarrow> None)"

definition match_Y :: "string \<Rightarrow> nat option" where
  "match_Y s = (if length s = 4 \<and> list_all digit s then Some (number_of s) else None)"

text \<open>The days of a month of the proleptic Gregorian calendar; years start at 1.\<close>

definition leap_year :: "nat \<Rightarrow> bool" where
  "leap_year y = (y mod 4 = 0 \<and> (y mod 100 \<noteq> 0 \<or> y mod 400 = 0))"

definition days_in_month :: "nat \<Rightarrow> nat \<Rightarrow> nat" where
  "days_in_month y m =
     (if m = 2 then (if leap_year y then 29 else 28)
      else if m = 4 \<or> m = 6 \<or> m = 9 \<or> m = 11 then 30 else 31)"

definition valid_date :: "nat \<Rightarrow> nat \<Rightarrow> nat \<Rightarrow> bool" where
  "valid_date y m d = (1 \<le> y \<and> 1 \<le> m \<and> m \<le> 12 \<and> 1 \<le> d \<and> d \<le> days_in_month y m)"

text \<open>
  One text against the format \<open>%d/%m/%Y\<close>: the whole text must match, and the three numbers
  must be a date of the calendar. The result is (year, month, day). The limits of the
  nanosecond timestamp range (years 1677 to 2262) are not modelled.
\<close>

definition strptime :: "string \<Rightarrow> (nat \<times> nat \<times> nat) option" where
  "strptime s =
     (case split_on CHR ''/'' s of
        [d, m, y] \<Rightarrow>
          (case match_d d of None \<Rightarrow> None | Some dd \<Rightarrow>
           case match_m m of None \<Rightarrow> None | Some mm \<Rightarrow>
           case match_Y y of None \<Rightarrow> None | Some yy \<Rightarrow>
             if valid_date yy mm dd then Some (yy, mm, dd) else None)
      | _ \<Rightarrow> None)"

text \<open>The texts that the parser reads as a missing date, besides a missing value.\<close>

definition nat_strings :: "string list" where
  "nat_strings = [[], ''NaT'', ''nat'', ''NAT'', ''nan'', ''NaN'', ''NAN'']"

text \<open>
  \<open>pd.to_datetime(series, format='%d/%m/%Y')\<close>: a missing value or a missing marker becomes
  \<open>NaT\<close>, a date stays, any other text must match the format, a number does not match; the
  first cell that does not match raises \<open>ValueError\<close> for the whole series.
\<close>

fun to_datetime_cell :: "cell \<Rightarrow> error + cell" where
  "to_datetime_cell NaN = Inr NaN"
| "to_datetime_cell (Str s) =
     (if s \<in> set nat_strings then Inr NaN
      else case strptime s of
             None \<Rightarrow> Inl ValueError
           | Some (y, m, d) \<Rightarrow> Inr (Date y m d))"
| "to_datetime_cell (Num x) = Inl ValueError"
| "to_datetime_cell (Date y m d) = Inr (Date y m d)"

fun to_datetime :: "series \<Rightarrow> error + series" where
  "to_datetime [] = Inr []"
| "to_datetime (c # cs) =
     (case to_datetime_cell c of Inl e \<Rightarrow> Inl e | Inr d \<Rightarrow>
      case to_datetime cs of Inl e \<Rightarrow> Inl e | Inr ds \<Rightarrow> Inr (d # ds))"

text \<open>\<open>series.dt.month\<close>: the month of every date, missing for \<open>NaT\<close>; a series that holds
  anything else has no \<open>.dt\<close> accessor.\<close>

fun datetimelike :: "cell \<Rightarrow> bool" where
  "datetimelike NaN = True"
| "datetimelike (Date y m d) = True"
| "datetimelike c = False"

fun month_of :: "cell \<Rightarrow> cell" where
  "month_of (Date y m d) = Num (of_nat m)"
| "month_of c = NaN"

definition dt_month :: "series \<Rightarrow> error + series" where
  "dt_month s = (if list_all datetimelike s then Inr (map month_of s) else Inl AttributeError)"

text \<open>
  The cells that \<open>read_csv\<close>, as line 16 calls it, puts into a frame: missing values, texts
  and numbers, no dates. A begin-date cell is missing for the parser when it is a missing value
  or a missing marker, and it conforms when it is a text that matches the format.
\<close>

fun from_csv :: "cell \<Rightarrow> bool" where
  "from_csv (Date y m d) = False"
| "from_csv c = True"

fun missing_date :: "cell \<Rightarrow> bool" where
  "missing_date NaN = True"
| "missing_date (Str s) = (s \<in> set nat_strings)"
| "missing_date c = False"

fun conforms :: "cell \<Rightarrow> bool" where
  "conforms (Str s) = (strptime s \<noteq> None)"
| "conforms c = False"

text \<open>Lines 18 to 22, from the frame that \<open>read_csv\<close> returned.\<close>

definition load :: "frame \<Rightarrow> error + frame" where
  "load raw =
     (case getitem raw ''beginDate'' of Inl e \<Rightarrow> Inl e | Inr b \<Rightarrow>
      case to_datetime b of Inl e \<Rightarrow> Inl e | Inr dates \<Rightarrow>
      case setitem raw ''beginDate'' dates of Inl e \<Rightarrow> Inl e | Inr df1 \<Rightarrow>
      case getitem df1 ''beginDate'' of Inl e \<Rightarrow> Inl e | Inr b1 \<Rightarrow>
      case dt_month b1 of Inl e \<Rightarrow> Inl e | Inr ms \<Rightarrow>
        setitem df1 ''month'' ms)"

text \<open>
  The frame that \<open>read_csv\<close> returns for the scenario of the specification, and the same with
  the begin date of the second row left empty in the file.
\<close>

definition scenario_raw :: frame where
  "scenario_raw =
     \<lparr>columns = [''Unnamed: 0'', ''memberStateCode'', ''product'', ''variety_name'', ''price'',
                 ''beginDate''],
      data = [[Num 0, Str ''FR'', Str ''Apple'', Str ''Gala'', Num 1.2, Str ''05/01/2024''],
              [Num 1, Str ''FR'', Str ''Apple'', Str ''Gala'', Num 1.4, Str ''15/01/2024''],
              [Num 2, Str ''NL'', Str ''Pear'', Str ''Conference'', Num 0.9, Str ''10/01/2024'']]\<rparr>"

definition undated_raw :: frame where
  "undated_raw =
     \<lparr>columns = [''Unnamed: 0'', ''memberStateCode'', ''product'', ''variety_name'', ''price'',
                 ''beginDate''],
      data = [[Num 0, Str ''FR'', Str ''Apple'', Str ''Gala'', Num 1.2, Str ''05/01/2024''],
              [Num 1, Str ''FR'', Str ''Apple'', Str ''Gala'', Num 1.4, NaN],
              [Num 2, Str ''NL'', Str ''Pear'', Str ''Conference'', Num 0.9, Str ''10/01/2024'']]\<rparr>"


definition malformed_raw :: frame where
  "malformed_raw =
     \<lparr>columns = [''Unnamed: 0'', ''memberStateCode'', ''product'', ''variety_name'', ''price'',
                 ''beginDate''],
      data = [[Num 0, Str ''FR'', Str ''Apple'', Str ''Gala'', Num 1.2, Str ''05/01/2024''],
              [Num 1, Str ''FR'', Str ''Apple'', Str ''Gala'', Num 1.4, Str ''2024-01-15'']]\<rparr>"

section \<open>Filter Engine\<close>

text \<open>The four multiselect widgets return the chosen values.\<close>

record selection =
  selected_countries :: "cell list"
  selected_products :: "cell list"
  selected_months :: "cell list"
  selected_varieties :: "cell list"

text \<open>\<open>Series.isin(values)\<close>: the boolean mask of membership; a missing value is matched by a
  missing value among \<open>values\<close>.\<close>

definition isin :: "series \<Rightarrow> cell list \<Rightarrow> bool list" where
  "isin s vs = map (\<lambda>v. v \<in> set vs) s"

text \<open>The operator \<open>&\<close> on two boolean masks.\<close>

definition mask_and :: "bool list \<Rightarrow> bool list \<Rightarrow> bool list" where
  "mask_and a b = map2 (\<and>) a b"

text \<open>\<open>df[mask]\<close>: the rows at which the mask is true, as a new frame with the same columns;
  a mask of another length raises \<open>ValueError\<close>.\<close>

definition getitem_bool :: "frame \<Rightarrow> bool list \<Rightarrow> error + frame" where
  "getitem_bool df flags =
     (if length flags \<noteq> length (data df) then Inl ValueError
      else Inr (df\<lparr>data := map fst (filter snd (zip (data df) flags))\<rparr>))"

text \<open>Lines 53 to 58.\<close>

definition filtered_df :: "frame \<Rightarrow> selection \<Rightarrow> error + frame" where
  "filtered_df df sel =
     (case getitem df ''memberStateCode'' of Inl e \<Rightarrow> Inl e | Inr c \<Rightarrow>
      case getitem df ''product'' of Inl e \<Rightarrow> Inl e | Inr p \<Rightarrow>
      case getitem df ''variety_name'' of Inl e \<Rightarrow> Inl e | Inr v \<Rightarrow>
      case getitem df ''month'' of Inl e \<Rightarrow> Inl e | Inr m \<Rightarrow>
        getitem_bool df
          (mask_and (mask_and (mask_and (isin c (selected_countries sel))
                                        (isin p (selected_products sel)))
                              (isin v (selected_varieties sel)))
                    (isin m (selected_months sel))))"






text \<open>The membership test of one row, for columns at positions \<open>ic\<close>, \<open>ip\<close>, \<open>iv\<close>, \<open>im\<close>.\<close>

definition selected :: "nat \<Rightarrow> nat \<Rightarrow> nat \<Rightarrow> nat \<Rightarrow> selection \<Rightarrow> cell list \<Rightarrow> bool" where
  "selected ic ip iv im sel r =
     (r ! ic \<in> set (selected_countries sel) \<and> r ! ip \<in> set (selected_products sel) \<and>
      r ! iv \<in> set (selected_varieties sel) \<and> r ! im \<in> set (selected_months sel))"

section \<open>Aggregator\<close>




























section \<open>Exporter: dropping the placeholder columns\<close>

text \<open>Lower case of an ASCII letter; the letters of the pattern \<open>unnamed\<close> have no other
  case variants.\<close>

definition lower :: "char \<Rightarrow> char" where
  "lower c = (if CHR ''A'' \<le> c \<and> c \<le> CHR ''Z'' then char_of (of_char c + (32::nat)) else c)"

text \<open>A search for a literal pattern anywhere in a text.\<close>

fun contains :: "string \<Rightarrow> string \<Rightarrow> bool" where
  "contains pat [] = (pat = [])"
| "contains pat (c # cs) = (prefix pat (c # cs) \<or> contains pat cs)"

text \<open>\<open>Index.str.contains('unnamed', case=False)\<close> on one label.\<close>

definition str_contains_unnamed :: "string \<Rightarrow> bool" where
  "str_contains_unnamed name = contains ''unnamed'' (map lower name)"

text \<open>\<open>index[mask]\<close> on the column labels: the labels at which the mask is true; a mask of
  another length raises \<open>IndexError\<close>.\<close>

definition index_getitem_bool :: "string list \<Rightarrow> bool list \<Rightarrow> error + string list" where
  "index_getitem_bool cols flags =
     (if length flags \<noteq> length cols then Inl IndexError
      else Inr (map fst (filter snd (zip cols flags))))"

text \<open>\<open>DataFrame.drop(labels, axis=1)\<close>: every column with one of the labels is removed; a label
  that is not a column raises \<open>KeyError\<close>.\<close>

definition drop_columns :: "frame \<Rightarrow> string list \<Rightarrow> error + frame" where
  "drop_columns fr labels =
     (if list_ex (\<lambda>l. l \<notin> set (columns fr)) labels then Inl KeyError
      else Inr (fr\<lparr>columns := filter (\<lambda>c. c \<notin> set labels) (columns fr),
                    data := map (\<lambda>r. map snd (filter (\<lambda>cv. fst cv \<notin> set labels) (zip (columns fr) r)))
                              (data fr)\<rparr>))"

text \<open>Line 148: the mask is computed on the labels of \<open>df\<close> and indexes the labels of
  \<open>filtered_df\<close>; the result is the new value of \<open>filtered_df\<close>.\<close>

definition drop_unnamed :: "frame \<Rightarrow> frame \<Rightarrow> error + frame" where
  "drop_unnamed df fv =
     (case index_getitem_bool (columns fv) (map str_contains_unnamed (columns df)) of
        Inl e \<Rightarrow> Inl e
      | Inr labels \<Rightarrow> drop_columns fv labels)"

section \<open>Exporter: the delimited text\<close>







text \<open>A number below \<open>10 ^ w\<close> in \<open>w\<close> decimal digits, and an ISO date.\<close>

definition digit_char :: "nat \<Rightarrow> char" where
  "digit_char d = char_of (48 + d)"

fun dec :: "nat \<Rightarrow> nat \<Rightarrow> string" where
  "dec 0 n = []"
| "dec (Suc w) n = dec w (n div 10) @ [digit_char (n mod 10)]"





section \<open>Reading the export back\<close>














section \<open>The script as a whole\<close>





text \<open>The Dataset of the scenario of the specification, after loading, with a placeholder
  column in front.\<close>

definition scenario_df :: frame where
  "scenario_df =
     \<lparr>columns = [''Unnamed: 0'', ''memberStateCode'', ''product'', ''variety_name'', ''price'',
                 ''beginDate'', ''month''],
      data = [[Num 0, Str ''FR'', Str ''Apple'', Str ''Gala'', Num 1.2, Date 2024 1 5, Num 1],
              [Num 1, Str ''FR'', Str ''Apple'', Str ''Gala'', Num 1.4, Date 2024 1 15, Num 1],
              [Num 2, Str ''NL'', Str ''Pear'', Str ''Conference'', Num 0.9, Date 2024 1 10, Num 1]]\<rparr>"







definition only_FR :: selection where
  "only_FR = \<lparr>selected_countries = [Str ''FR''], selected_products = [Str ''Apple'', Str ''Pear''],
              selected_months = [Num 1], selected_varieties = [Str ''Gala'', Str ''Conference'']\<rparr>"

section \<open>Properties of the Filter Engine\<close>

lemma scenario_locs:
  "get_loc ''memberStateCode'' (columns scenario_df) = Some 1"
  "get_loc ''product'' (columns scenario_df) = Some 2"
  "get_loc ''variety_name'' (columns scenario_df) = Some 3"
  "get_loc ''month'' (columns scenario_df) = Some 6"
  by (simp_all add: scenario_df_def)

lemma unique_set [simp]: "set (unique xs) = set xs"
  by (induction xs rule: unique.induct) auto

lemma mask_and_map: "mask_and (map P xs) (map Q xs) = map (\<lambda>x. P x \<and> Q x) xs"
  by (induction xs) (simp_all add: mask_and_def)

lemma take_mask_map: "map fst (filter snd (zip xs (map P xs))) = filter P xs"
  by (induction xs) simp_all

lemma filtered_df_filter:
  assumes "get_loc ''memberStateCode'' (columns df) = Some ic"
    and "get_loc ''product'' (columns df) = Some ip"
    and "get_loc ''variety_name'' (columns df) = Some iv"
    and "get_loc ''month'' (columns df) = Some im"
  shows "filtered_df df sel = Inr (df\<lparr>data := filter (selected ic ip iv im sel) (data df)\<rparr>)"
proof -
  have "mask_and (mask_and (mask_and
           (isin (map (\<lambda>r. r ! ic) (data df)) (selected_countries sel))
           (isin (map (\<lambda>r. r ! ip) (data df)) (selected_products sel)))
           (isin (map (\<lambda>r. r ! iv) (data df)) (selected_varieties sel)))
           (isin (map (\<lambda>r. r ! im) (data df)) (selected_months sel))
        = map (selected ic ip iv im sel) (data df)"
    by (simp add: isin_def mask_and_map o_def selected_def conj_assoc)
  then show ?thesis
    using assms by (simp add: filtered_df_def getitem_def getitem_bool_def take_mask_map)
qed


text \<open>
  Claim C1. For every Dataset (a frame that has the four filter columns) and every Filter
  Selection, the filter succeeds, and a row of the Dataset is in the Filtered View exactly when
  its country, its product, its variety and its month are each among the selected values of that
  attribute. The Filtered View is the Dataset with the other rows left out, in source order:
  a subsequence of the Dataset, with the same columns.
\<close>

theorem filtered_view_membership:
  assumes "get_loc ''memberStateCode'' (columns df) = Some ic"
    and "get_loc ''product'' (columns df) = Some ip"
    and "get_loc ''variety_name'' (columns df) = Some iv"
    and "get_loc ''month'' (columns df) = Some im"
  shows "\<exists>fv. filtered_df df sel = Inr fv \<and> columns fv = columns df \<and>
           (\<forall>r. r \<in> set (data fv) \<longleftrightarrow>
                  r \<in> set (data df) \<and>
                  r ! ic \<in> set (selected_countries sel) \<and>
                  r ! ip \<in> set (selected_products sel) \<and>
                  r ! iv \<in> set (selected_varieties sel) \<and>
                  r ! im \<in> set (selected_months sel)) \<and>
           data fv = filter (selected ic ip iv im sel) (data df) \<and>
           subseq (data fv) (data df)"
proof -
  let ?fv = "df\<lparr>data := filter (selected ic ip iv im sel) (data df)\<rparr>"
  have "filtered_df df sel = Inr ?fv"
    using assms by (rule filtered_df_filter)
  moreover have "columns ?fv = columns df" by simp
  moreover have "\<forall>r. r \<in> set (data ?fv) \<longleftrightarrow>
                  r \<in> set (data df) \<and>
                  r ! ic \<in> set (selected_countries sel) \<and>
                  r ! ip \<in> set (selected_products sel) \<and>
                  r ! iv \<in> set (selected_varieties sel) \<and>
                  r ! im \<in> set (selected_months sel)"
    by (simp add: selected_def)
  moreover have "subseq (data ?fv) (data df)" by simp
  ultimately show ?thesis by (intro exI [of _ ?fv]) simp
qed

theorem filtered_view_membership_witness:
  "\<exists>fv. filtered_df scenario_df only_FR = Inr fv \<and>
     columns fv = columns scenario_df \<and>
     data fv = [[Num 0, Str ''FR'', Str ''Apple'', Str ''Gala'', Num 1.2, Date 2024 1 5, Num 1],
                [Num 1, Str ''FR'', Str ''Apple'', Str ''Gala'', Num 1.4, Date 2024 1 15, Num 1]] \<and>
     subseq (data fv) (data scenario_df)"
proof -
  obtain fv where fv: "filtered_df scenario_df only_FR = Inr fv"
      "columns fv = columns scenario_df"
      "data fv = filter (selected 1 2 3 6 only_FR) (data scenario_df)"
      "subseq (data fv) (data scenario_df)"
    using filtered_view_membership [OF scenario_locs, of only_FR] by blast
  have "filter (selected 1 2 3 6 only_FR) (data scenario_df) =
     [[Num 0, Str ''FR'', Str ''Apple'', Str ''Gala'', Num 1.2, Date 2024 1 5, Num 1],
      [Num 1, Str ''FR'', Str ''Apple'', Str ''Gala'', Num 1.4, Date 2024 1 15, Num 1]]"
    by (simp add: scenario_df_def only_FR_def selected_def)
  with fv(3) have "data fv =
     [[Num 0, Str ''FR'', Str ''Apple'', Str ''Gala'', Num 1.2, Date 2024 1 5, Num 1],
      [Num 1, Str ''FR'', Str ''Apple'', Str ''Gala'', Num 1.4, Date 2024 1 15, Num 1]]"
    by (rule trans)
  with fv(1,2,4) show ?thesis by blast
qed





text \<open>
  Claim C7. For every Dataset and every Filter Selection in which at least one of the four
  selections is empty, the Filtered View has no rows.
\<close>

theorem empty_selection_empty_view:
  assumes "get_loc ''memberStateCode'' (columns df) = Some ic"
    and "get_loc ''product'' (columns df) = Some ip"
    and "get_loc ''variety_name'' (columns df) = Some iv"
    and "get_loc ''month'' (columns df) = Some im"
    and "selected_countries sel = [] \<or> selected_products sel = [] \<or>
         selected_varieties sel = [] \<or> selected_months sel = []"
  shows "\<exists>fv. filtered_df df sel = Inr fv \<and> data fv = [] \<and> columns fv = columns df"
proof -
  have "filter (selected ic ip iv im sel) (data df) = []"
    using assms(5) by (auto simp: selected_def filter_empty_conv)
  then show ?thesis
    using filtered_df_filter [OF assms(1-4), of sel] by simp
qed

theorem empty_selection_empty_view_witness:
  "\<exists>fv. filtered_df scenario_df (only_FR\<lparr>selected_months := []\<rparr>) = Inr fv \<and> data fv = [] \<and>
     columns fv = columns scenario_df"
  using empty_selection_empty_view [OF scenario_locs, of "only_FR\<lparr>selected_months := []\<rparr>"]
  by simp


section \<open>Properties of the placeholder-column drop\<close>

lemma contains_sublist: "contains pat s \<longleftrightarrow> sublist pat s"
  by (induction s) (auto simp: sublist_Cons_right)

lemma filtered_df_columns:
  assumes "filtered_df df sel = Inr fv"
  shows "columns fv = columns df"
  using assms
  by (auto simp: filtered_df_def getitem_bool_def split: sum.splits if_splits)

lemma drop_unnamed_same_columns:
  assumes "columns fv = columns df"
  shows "drop_unnamed df fv =
     Inr (fv\<lparr>columns := filter (\<lambda>c. \<not> str_contains_unnamed c) (columns df),
              data := map (\<lambda>r. map snd (filter (\<lambda>cv. \<not> str_contains_unnamed (fst cv))
                                               (zip (columns df) r))) (data fv)\<rparr>)"
proof -
  define labels where "labels = filter str_contains_unnamed (columns df)"
  have l: "index_getitem_bool (columns df) (map str_contains_unnamed (columns df)) = Inr labels"
    by (simp add: index_getitem_bool_def take_mask_map labels_def)
  have m: "c \<notin> set labels \<longleftrightarrow> \<not> str_contains_unnamed c" if "c \<in> set (columns df)" for c
    using that by (simp add: labels_def)
  have e: "\<not> list_ex (\<lambda>l. l \<notin> set (columns df)) labels"
    by (simp add: list_ex_iff labels_def)
  have c: "filter (\<lambda>c. c \<notin> set labels) (columns df) =
           filter (\<lambda>c. \<not> str_contains_unnamed c) (columns df)"
    by (rule filter_cong) (simp_all add: m)
  have d: "filter (\<lambda>cv. fst cv \<notin> set labels) (zip (columns df) r) =
           filter (\<lambda>cv. \<not> str_contains_unnamed (fst cv)) (zip (columns df) r)" for r
  proof (rule filter_cong [OF refl])
    fix cv assume "cv \<in> set (zip (columns df) r)"
    then have "fst cv \<in> set (columns df)"
      by (metis prod.collapse set_zip_leftD)
    then show "(fst cv \<notin> set labels) = (\<not> str_contains_unnamed (fst cv))"
      by (rule m)
  qed
  show ?thesis
    using assms by (simp add: drop_unnamed_def l drop_columns_def e c d)
qed


lemma scenario_unnamed:
  "filter (\<lambda>c. \<not> str_contains_unnamed c) (columns scenario_df) =
     [''memberStateCode'', ''product'', ''variety_name'', ''price'', ''beginDate'', ''month'']"
  by code_simp

text \<open>
  Claim C10. For every Filter Selection for which the filter succeeds, the Filtered View has
  the columns of the Dataset, in the same order. Hence the mask of line 148, computed on the
  Dataset's labels and applied by position to the Filtered View's labels, has the right length,
  the drop succeeds, and it removes exactly the columns whose lower-cased label contains
  \<open>unnamed\<close>: the other columns stay, in order, with their cells.
\<close>

theorem placeholder_mask_drops_unnamed:
  assumes "filtered_df df sel = Inr fv"
  shows "columns fv = columns df \<and>
     (\<exists>out. drop_unnamed df fv = Inr out \<and>
        columns out = filter (\<lambda>c. \<not> str_contains_unnamed c) (columns df) \<and>
        data out = map (\<lambda>r. map snd (filter (\<lambda>cv. \<not> str_contains_unnamed (fst cv))
                                             (zip (columns df) r))) (data fv)) \<and>
     (\<forall>c. str_contains_unnamed c \<longleftrightarrow> (\<exists>pre suf. map lower c = pre @ ''unnamed'' @ suf))"
proof -
  have c: "columns fv = columns df"
    using assms by (rule filtered_df_columns)
  have "\<forall>c. str_contains_unnamed c \<longleftrightarrow> (\<exists>pre suf. map lower c = pre @ ''unnamed'' @ suf)"
    by (simp add: str_contains_unnamed_def contains_sublist sublist_def)
  with c drop_unnamed_same_columns [OF c] show ?thesis by simp
qed

theorem placeholder_mask_drops_unnamed_witness:
  "\<exists>fv out. filtered_df scenario_df only_FR = Inr fv \<and> columns fv = columns scenario_df \<and>
     drop_unnamed scenario_df fv = Inr out \<and>
     columns out = [''memberStateCode'', ''product'', ''variety_name'', ''price'', ''beginDate'',
                    ''month'']"
proof -
  obtain fv where fv: "filtered_df scenario_df only_FR = Inr fv"
    using filtered_df_filter [OF scenario_locs] by blast
  from placeholder_mask_drops_unnamed [OF fv] obtain out
    where "columns fv = columns scenario_df" "drop_unnamed scenario_df fv = Inr out"
      "columns out = filter (\<lambda>c. \<not> str_contains_unnamed c) (columns scenario_df)"
    by blast
  with fv show ?thesis unfolding scenario_unnamed by blast
qed


section \<open>Properties of the Aggregator\<close>








subsection \<open>Grouped means\<close>
















subsection \<open>Rankings\<close>



























section \<open>Properties of the Loader\<close>

lemma get_loc_Some: "get_loc n cs = Some i \<Longrightarrow> i < length cs \<and> cs ! i = n"
  by (induction cs arbitrary: i) (auto split: if_splits)

lemma get_loc_None: "get_loc n cs = None \<longleftrightarrow> n \<notin> set cs"
  by (induction cs) auto

lemma get_loc_append_new: "n \<notin> set cs \<Longrightarrow> get_loc n (cs @ [n]) = Some (length cs)"
  by (induction cs) auto

lemma get_loc_append_old: "m \<noteq> n \<Longrightarrow> get_loc m (cs @ [n]) = get_loc m cs"
  by (induction cs) auto

lemma rectangular_nth: "rectangular df \<Longrightarrow> r \<in> set (data df) \<Longrightarrow> length r = length (columns df)"
  by (simp add: rectangular_def list_all_iff)

lemma map2_update_same:
  assumes "length s = length rows" and "\<forall>r\<in>set rows. i < length r"
  shows "map (\<lambda>r. r ! i) (map2 (\<lambda>r v. r[i := v]) rows s) = s"
  using assms by (induction rows s rule: list_induct2') auto

lemma map2_update_other:
  assumes "length s = length rows" and "j \<noteq> i"
  shows "map (\<lambda>r. r ! j) (map2 (\<lambda>r v. r[i := v]) rows s) = map (\<lambda>r. r ! j) rows"
  using assms by (induction rows s rule: list_induct2') auto

lemma map2_append_same:
  assumes "length s = length rows" and "\<forall>r\<in>set rows. length r = k"
  shows "map (\<lambda>r. r ! k) (map2 (\<lambda>r v. r @ [v]) rows s) = s"
  using assms by (induction rows s rule: list_induct2') auto

lemma map2_append_other:
  assumes "length s = length rows" and "\<forall>r\<in>set rows. j < length r"
  shows "map (\<lambda>r. r ! j) (map2 (\<lambda>r v. r @ [v]) rows s) = map (\<lambda>r. r ! j) rows"
  using assms by (induction rows s rule: list_induct2') (auto simp: nth_append)

lemma setitem_props:
  assumes rect: "rectangular df" and len: "length s = length (data df)"
  shows "\<exists>df'. setitem df n s = Inr df' \<and> rectangular df' \<and>
           length (data df') = length (data df) \<and>
           columns df' = (if n \<in> set (columns df) then columns df else columns df @ [n]) \<and>
           getitem df' n = Inr s \<and>
           (\<forall>m. m \<noteq> n \<longrightarrow> getitem df' m = getitem df m)"
proof (cases "get_loc n (columns df)")
  case None
  let ?df' = "df\<lparr>columns := columns df @ [n], data := map2 (\<lambda>r v. r @ [v]) (data df) s\<rparr>"
  have n: "n \<notin> set (columns df)"
    using None by (simp add: get_loc_None)
  have rows: "\<forall>r\<in>set (data df). length r = length (columns df)"
    using rect by (simp add: rectangular_def list_all_iff)
  have 1: "setitem df n s = Inr ?df'"
    using None len by (simp add: setitem_def)
  have 2: "rectangular ?df'"
    using rows by (auto simp: rectangular_def list_all_iff dest!: set_zip_leftD)
  have 3: "getitem ?df' n = Inr s"
    using n len rows map2_append_same [of s "data df" "length (columns df)"]
    by (simp add: getitem_def get_loc_append_new)
  have 4: "getitem ?df' m = getitem df m" if "m \<noteq> n" for m
  proof (cases "get_loc m (columns df)")
    case None
    then show ?thesis using that by (simp add: getitem_def get_loc_append_old)
  next
    case (Some j)
    then have "\<forall>r\<in>set (data df). j < length r"
      using rows by (auto dest: get_loc_Some)
    then show ?thesis
      using that Some len map2_append_other [of s "data df" j]
      by (simp add: getitem_def get_loc_append_old)
  qed
  show ?thesis
    using 1 2 3 4 n len by (intro exI [of _ ?df']) simp
next
  case (Some i)
  let ?df' = "df\<lparr>data := map2 (\<lambda>r v. r[i := v]) (data df) s\<rparr>"
  have n: "n \<in> set (columns df)" and i: "i < length (columns df)" and ni: "columns df ! i = n"
    using Some get_loc_None [of n "columns df"] get_loc_Some [OF Some] by auto
  have rows: "\<forall>r\<in>set (data df). length r = length (columns df)"
    using rect by (simp add: rectangular_def list_all_iff)
  have 1: "setitem df n s = Inr ?df'"
    using Some len by (simp add: setitem_def)
  have 2: "rectangular ?df'"
    using rows by (auto simp: rectangular_def list_all_iff dest!: set_zip_leftD)
  have 3: "getitem ?df' n = Inr s"
    using Some len rows i map2_update_same [of s "data df" i]
    by (simp add: getitem_def)
  have 4: "getitem ?df' m = getitem df m" if "m \<noteq> n" for m
  proof (cases "get_loc m (columns df)")
    case None
    then show ?thesis by (simp add: getitem_def)
  next
    case j: (Some j)
    have "j \<noteq> i"
      using get_loc_Some [OF j] ni that by auto
    then show ?thesis
      using j len map2_update_other [of s "data df" j i]
      by (simp add: getitem_def)
  qed
  show ?thesis
    using 1 2 3 4 n len by (intro exI [of _ ?df']) simp
qed


lemma to_datetime_cell_error: "to_datetime_cell c = Inl e \<Longrightarrow> e = ValueError"
  by (cases c) (auto split: if_splits option.splits)

lemma to_datetime_fails:
  assumes "c \<in> set s" and "to_datetime_cell c = Inl e"
  shows "to_datetime s = Inl ValueError"
  using assms
  by (induction s) (auto split: sum.splits dest: to_datetime_cell_error)

lemma to_datetime_succeeds:
  assumes "\<forall>c\<in>set s. \<exists>d. to_datetime_cell c = Inr d"
  shows "to_datetime s = Inr (map (\<lambda>c. projr (to_datetime_cell c)) s)"
  using assms by (induction s) (auto split: sum.splits)

lemma to_datetime_cell_missing:
  "missing_date c \<Longrightarrow> to_datetime_cell c = Inr NaN"
  by (cases c) auto

lemma to_datetime_cell_conforms:
  assumes "conforms c" and "\<not> missing_date c"
  shows "\<exists>s y m d. c = Str s \<and> strptime s = Some (y, m, d) \<and>
           to_datetime_cell c = Inr (Date y m d)"
  using assms by (cases c) auto

lemma to_datetime_cell_rejects:
  assumes "from_csv c" and "\<not> missing_date c" and "\<not> conforms c"
  shows "to_datetime_cell c = Inl ValueError"
  using assms by (cases c) (auto split: option.splits)

lemma strptime_month:
  assumes "strptime s = Some (y, m, d)"
  shows "1 \<le> m \<and> m \<le> 12 \<and> 1 \<le> d \<and> d \<le> 31 \<and> 1 \<le> y"
  using assms
  by (auto simp: strptime_def valid_date_def days_in_month_def
      split: list.splits option.splits if_splits)


lemma load_fails:
  assumes "get_loc ''beginDate'' (columns raw) = Some ib"
    and "r \<in> set (data raw)" and "to_datetime_cell (r ! ib) = Inl e"
  shows "load raw = Inl ValueError"
proof -
  have "r ! ib \<in> set (map (\<lambda>r. r ! ib) (data raw))"
    using assms(2) by simp
  from to_datetime_fails [OF this assms(3)] show ?thesis
    using assms(1) by (simp add: load_def getitem_def)
qed

lemma load_succeeds:
  assumes b: "get_loc ''beginDate'' (columns raw) = Some ib"
    and rect: "rectangular raw"
    and ok: "\<forall>r\<in>set (data raw). \<exists>d. to_datetime_cell (r ! ib) = Inr d \<and> datetimelike d"
  shows "\<exists>df. load raw = Inr df \<and> rectangular df \<and>
           length (data df) = length (data raw) \<and>
           columns df = (if ''month'' \<in> set (columns raw) then columns raw
                         else columns raw @ [''month'']) \<and>
           getitem df ''beginDate'' = Inr (map (\<lambda>r. projr (to_datetime_cell (r ! ib))) (data raw)) \<and>
           getitem df ''month'' =
             Inr (map (\<lambda>r. month_of (projr (to_datetime_cell (r ! ib)))) (data raw)) \<and>
           (\<forall>n. n \<noteq> ''beginDate'' \<and> n \<noteq> ''month'' \<longrightarrow> getitem df n = getitem raw n)"
proof -
  define dates where "dates = map (\<lambda>r. projr (to_datetime_cell (r ! ib))) (data raw)"
  define months where "months = map month_of dates"
  have g: "getitem raw ''beginDate'' = Inr (map (\<lambda>r. r ! ib) (data raw))"
    using b by (simp add: getitem_def)
  have "\<forall>c\<in>set (map (\<lambda>r. r ! ib) (data raw)). \<exists>d. to_datetime_cell c = Inr d"
    using ok by auto
  from to_datetime_succeeds [OF this]
  have t: "to_datetime (map (\<lambda>r. r ! ib) (data raw)) = Inr dates"
    by (simp add: dates_def o_def)
  have bin: "''beginDate'' \<in> set (columns raw)"
    using b get_loc_None [of "''beginDate''" "columns raw"] by auto
  have "length dates = length (data raw)"
    by (simp add: dates_def)
  from setitem_props [OF rect this, of "''beginDate''"] bin obtain df1
    where s1: "setitem raw ''beginDate'' dates = Inr df1" and r1: "rectangular df1"
      and l1: "length (data df1) = length (data raw)" and c1: "columns df1 = columns raw"
      and g1: "getitem df1 ''beginDate'' = Inr dates"
      and o1: "\<forall>m. m \<noteq> ''beginDate'' \<longrightarrow> getitem df1 m = getitem raw m"
    by auto
  have "list_all datetimelike dates"
    using ok by (auto simp: dates_def list_all_iff)
  then have m: "dt_month dates = Inr months"
    by (simp add: dt_month_def months_def)
  have "length months = length (data df1)"
    by (simp add: months_def dates_def l1)
  from setitem_props [OF r1 this, of "''month''"] obtain df
    where s2: "setitem df1 ''month'' months = Inr df" and r2: "rectangular df"
      and l2: "length (data df) = length (data df1)"
      and c2: "columns df = (if ''month'' \<in> set (columns df1) then columns df1
                             else columns df1 @ [''month''])"
      and g2: "getitem df ''month'' = Inr months"
      and o2: "\<forall>m. m \<noteq> ''month'' \<longrightarrow> getitem df m = getitem df1 m"
    by auto
  have "load raw = Inr df"
    by (simp add: load_def g t s1 g1 m s2)
  moreover have "getitem df ''beginDate'' = Inr dates"
    using o2 g1 by simp
  moreover have "\<forall>n. n \<noteq> ''beginDate'' \<and> n \<noteq> ''month'' \<longrightarrow> getitem df n = getitem raw n"
    using o1 o2 by simp
  ultimately show ?thesis
    using r2 l1 l2 c1 c2 g2 unfolding months_def dates_def
    by (intro exI [of _ df]) (simp add: o_def)
qed

text \<open>
  Claim C8, as the code has it. For every frame read from the file, with a begin-date column
  of texts, numbers and missing values: if some row's begin date is neither missing (a missing
  value or a missing marker) nor a text that matches \<open>%d/%m/%Y\<close>, the whole load fails with
  \<open>ValueError\<close>. Otherwise the load succeeds and keeps every row and every other column; a
  row with a missing begin date gets a missing date and a missing month, and every other row
  gets the date its text denotes and, as month, the integer between 1 and 12 that is the month
  of this date.
\<close>

theorem loader_dates:
  assumes "get_loc ''beginDate'' (columns raw) = Some ib"
    and "rectangular raw"
    and "list_all (\<lambda>r. from_csv (r ! ib)) (data raw)"
  shows "(list_ex (\<lambda>r. \<not> missing_date (r ! ib) \<and> \<not> conforms (r ! ib)) (data raw) \<longrightarrow>
            load raw = Inl ValueError) \<and>
         (list_all (\<lambda>r. missing_date (r ! ib) \<or> conforms (r ! ib)) (data raw) \<longrightarrow>
            (\<exists>df dates months.
               load raw = Inr df \<and> rectangular df \<and> length (data df) = length (data raw) \<and>
               columns df = (if ''month'' \<in> set (columns raw) then columns raw
                             else columns raw @ [''month'']) \<and>
               getitem df ''beginDate'' = Inr dates \<and> getitem df ''month'' = Inr months \<and>
               (\<forall>n. n \<noteq> ''beginDate'' \<and> n \<noteq> ''month'' \<longrightarrow> getitem df n = getitem raw n) \<and>
               length dates = length (data raw) \<and> length months = length (data raw) \<and>
               (\<forall>i<length (data raw).
                  (missing_date (data raw ! i ! ib) \<longrightarrow> dates ! i = NaN \<and> months ! i = NaN) \<and>
                  (\<not> missing_date (data raw ! i ! ib) \<longrightarrow>
                     (\<exists>s y m d. data raw ! i ! ib = Str s \<and> strptime s = Some (y, m, d) \<and>
                        dates ! i = Date y m d \<and> months ! i = Num (of_nat m) \<and>
                        1 \<le> m \<and> m \<le> 12)))))"
proof (intro conjI impI)
  assume "list_ex (\<lambda>r. \<not> missing_date (r ! ib) \<and> \<not> conforms (r ! ib)) (data raw)"
  then obtain r where r: "r \<in> set (data raw)" "\<not> missing_date (r ! ib)" "\<not> conforms (r ! ib)"
    by (auto simp: list_ex_iff)
  moreover have "from_csv (r ! ib)"
    using assms(3) r(1) by (simp add: list_all_iff)
  ultimately have "to_datetime_cell (r ! ib) = Inl ValueError"
    by (simp add: to_datetime_cell_rejects)
  from load_fails [OF assms(1) r(1) this] show "load raw = Inl ValueError" .
next
  assume all: "list_all (\<lambda>r. missing_date (r ! ib) \<or> conforms (r ! ib)) (data raw)"
  have cell: "(missing_date c \<longrightarrow> to_datetime_cell c = Inr NaN) \<and>
              (\<not> missing_date c \<longrightarrow>
                 (\<exists>s y m d. c = Str s \<and> strptime s = Some (y, m, d) \<and>
                    to_datetime_cell c = Inr (Date y m d) \<and> 1 \<le> m \<and> m \<le> 12))"
    if "missing_date c \<or> conforms c" for c
    using that to_datetime_cell_missing [of c] to_datetime_cell_conforms [of c] strptime_month
    by blast
  have ok: "\<forall>r\<in>set (data raw). \<exists>d. to_datetime_cell (r ! ib) = Inr d \<and> datetimelike d"
  proof
    fix r assume "r \<in> set (data raw)"
    with all have "missing_date (r ! ib) \<or> conforms (r ! ib)"
      by (simp add: list_all_iff)
    from cell [OF this] show "\<exists>d. to_datetime_cell (r ! ib) = Inr d \<and> datetimelike d"
      by (cases "missing_date (r ! ib)") auto
  qed
  from load_succeeds [OF assms(1,2) ok] obtain df
    where df: "load raw = Inr df" "rectangular df" "length (data df) = length (data raw)"
      "columns df = (if ''month'' \<in> set (columns raw) then columns raw
                     else columns raw @ [''month''])"
      "getitem df ''beginDate'' = Inr (map (\<lambda>r. projr (to_datetime_cell (r ! ib))) (data raw))"
      "getitem df ''month'' =
         Inr (map (\<lambda>r. month_of (projr (to_datetime_cell (r ! ib)))) (data raw))"
      "\<forall>n. n \<noteq> ''beginDate'' \<and> n \<noteq> ''month'' \<longrightarrow> getitem df n = getitem raw n"
    by blast
  let ?dates = "map (\<lambda>r. projr (to_datetime_cell (r ! ib))) (data raw)"
  let ?months = "map (\<lambda>r. month_of (projr (to_datetime_cell (r ! ib)))) (data raw)"
  have rows: "(missing_date (data raw ! i ! ib) \<longrightarrow> ?dates ! i = NaN \<and> ?months ! i = NaN) \<and>
              (\<not> missing_date (data raw ! i ! ib) \<longrightarrow>
                 (\<exists>s y m d. data raw ! i ! ib = Str s \<and> strptime s = Some (y, m, d) \<and>
                    ?dates ! i = Date y m d \<and> ?months ! i = Num (of_nat m) \<and>
                    1 \<le> m \<and> m \<le> 12))"
    if i: "i < length (data raw)" for i
  proof -
    have "data raw ! i \<in> set (data raw)"
      using i by simp
    with all have "missing_date (data raw ! i ! ib) \<or> conforms (data raw ! i ! ib)"
      by (simp add: list_all_iff)
    from cell [OF this] show ?thesis
      using i by (cases "missing_date (data raw ! i ! ib)") auto
  qed
  show "\<exists>df dates months.
               load raw = Inr df \<and> rectangular df \<and> length (data df) = length (data raw) \<and>
               columns df = (if ''month'' \<in> set (columns raw) then columns raw
                             else columns raw @ [''month'']) \<and>
               getitem df ''beginDate'' = Inr dates \<and> getitem df ''month'' = Inr months \<and>
               (\<forall>n. n \<noteq> ''beginDate'' \<and> n \<noteq> ''month'' \<longrightarrow> getitem df n = getitem raw n) \<and>
               length dates = length (data raw) \<and> length months = length (data raw) \<and>
               (\<forall>i<length (data raw).
                  (missing_date (data raw ! i ! ib) \<longrightarrow> dates ! i = NaN \<and> months ! i = NaN) \<and>
                  (\<not> missing_date (data raw ! i ! ib) \<longrightarrow>
                     (\<exists>s y m d. data raw ! i ! ib = Str s \<and> strptime s = Some (y, m, d) \<and>
                        dates ! i = Date y m d \<and> months ! i = Num (of_nat m) \<and>
                        1 \<le> m \<and> m \<le> 12)))"
    apply (rule exI [of _ df], rule exI [of _ ?dates], rule exI [of _ ?months])
    using df rows by simp
qed

lemma scenario_raw_dates:
  "get_loc ''beginDate'' (columns scenario_raw) = Some 5"
  "rectangular scenario_raw"
  "list_all (\<lambda>r. from_csv (r ! 5)) (data scenario_raw)"
  "list_all (\<lambda>r. missing_date (r ! 5) \<or> conforms (r ! 5)) (data scenario_raw)"
  "\<not> missing_date (data scenario_raw ! 0 ! 5)"
  "data scenario_raw ! 0 ! 5 = Str ''05/01/2024''"
  "strptime ''05/01/2024'' = Some (2024, 1, 5)"
  by code_simp+

lemma malformed_raw_dates:
  "get_loc ''beginDate'' (columns malformed_raw) = Some 5"
  "rectangular malformed_raw"
  "list_all (\<lambda>r. from_csv (r ! 5)) (data malformed_raw)"
  "list_ex (\<lambda>r. \<not> missing_date (r ! 5) \<and> \<not> conforms (r ! 5)) (data malformed_raw)"
  by code_simp+

theorem loader_dates_witness:
  "(\<exists>df dates months. load scenario_raw = Inr df \<and> length (data df) = 3 \<and>
      columns df = columns scenario_raw @ [''month''] \<and>
      getitem df ''beginDate'' = Inr dates \<and> getitem df ''month'' = Inr months \<and>
      dates ! 0 = Date 2024 1 5 \<and> months ! 0 = Num 1) \<and>
   load malformed_raw = Inl ValueError"
proof
  have f: "0 < length (data scenario_raw)" "length (data scenario_raw) = 3"
    "''month'' \<notin> set (columns scenario_raw)"
    by (simp_all add: scenario_raw_def)
  note th = loader_dates [OF scenario_raw_dates(1-3), THEN conjunct2, rule_format,
      OF scenario_raw_dates(4)]
  then obtain df dates months where a: "load scenario_raw = Inr df"
    and b: "length (data df) = length (data scenario_raw)"
    and c: "columns df = (if ''month'' \<in> set (columns scenario_raw) then columns scenario_raw
                    else columns scenario_raw @ [''month''])"
    and d: "getitem df ''beginDate'' = Inr dates" and e: "getitem df ''month'' = Inr months"
    and rows: "\<forall>i<length (data scenario_raw).
         (missing_date (data scenario_raw ! i ! 5) \<longrightarrow> dates ! i = NaN \<and> months ! i = NaN) \<and>
         (\<not> missing_date (data scenario_raw ! i ! 5) \<longrightarrow>
            (\<exists>s y m d. data scenario_raw ! i ! 5 = Str s \<and> strptime s = Some (y, m, d) \<and>
               dates ! i = Date y m d \<and> months ! i = Num (of_nat m) \<and> 1 \<le> m \<and> m \<le> 12))"
    by (elim exE conjE) (rule that, assumption+)
  from rows [rule_format, OF f(1), THEN conjunct2, rule_format, OF scenario_raw_dates(5)]
  obtain s y m d where s: "data scenario_raw ! 0 ! 5 = Str s" and p: "strptime s = Some (y, m, d)"
    and dm: "dates ! 0 = Date y m d" "months ! 0 = Num (of_nat m)"
    by (elim exE conjE) (rule that, assumption+)
  from s have "s = ''05/01/2024''"
    unfolding scenario_raw_dates(6) by simp
  with p have "Some (y, m, d) = Some (2024, 1, 5)"
    using scenario_raw_dates(7) by (simp only:)
  then have "y = 2024 \<and> m = 1 \<and> d = 5"
    by simp
  with dm have r: "dates ! 0 = Date 2024 1 5" "months ! 0 = Num 1"
    by simp_all
  have b': "length (data df) = 3"
    using b unfolding f(2) .
  have c': "columns df = columns scenario_raw @ [''month'']"
    using c f(3) by (simp only: if_False)
  from a b' c' d e r
  show "\<exists>df dates months. load scenario_raw = Inr df \<and> length (data df) = 3 \<and>
      columns df = columns scenario_raw @ [''month''] \<and>
      getitem df ''beginDate'' = Inr dates \<and> getitem df ''month'' = Inr months \<and>
      dates ! 0 = Date 2024 1 5 \<and> months ! 0 = Num 1"
    by (intro exI conjI)
next
  from loader_dates [OF malformed_raw_dates(1-3), THEN conjunct1, rule_format,
      OF malformed_raw_dates(4)]
  show "load malformed_raw = Inl ValueError" .
qed

text \<open>
  Claim C8 as the specification words it fails: the begin date of the second row of
  \<open>undated_raw\<close> is missing, so it does not conform to the format, and yet the load succeeds;
  the row is kept with a missing date and a missing month, which is no integer between 1
  and 12.
\<close>

theorem missing_date_loads:
  "\<not> conforms (data undated_raw ! 1 ! 5) \<and>
   load undated_raw =
     Inr \<lparr>columns = [''Unnamed: 0'', ''memberStateCode'', ''product'', ''variety_name'', ''price'',
                     ''beginDate'', ''month''],
          data = [[Num 0, Str ''FR'', Str ''Apple'', Str ''Gala'', Num 1.2, Date 2024 1 5, Num 1],
                  [Num 1, Str ''FR'', Str ''Apple'', Str ''Gala'', Num 1.4, NaN, NaN],
                  [Num 2, Str ''NL'', Str ''Pear'', Str ''Conference'', Num 0.9, Date 2024 1 10,
                   Num 1]]\<rparr>"
proof
  show "\<not> conforms (data undated_raw ! 1 ! 5)"
    by (simp add: undated_raw_def)
  show "load undated_raw =
     Inr \<lparr>columns = [''Unnamed: 0'', ''memberStateCode'', ''product'', ''variety_name'', ''price'',
                     ''beginDate'', ''month''],
          data = [[Num 0, Str ''FR'', Str ''Apple'', Str ''Gala'', Num 1.2, Date 2024 1 5, Num 1],
                  [Num 1, Str ''FR'', Str ''Apple'', Str ''Gala'', Num 1.4, NaN, NaN],
                  [Num 2, Str ''NL'', Str ''Pear'', Str ''Conference'', Num 0.9, Date 2024 1 10,
                   Num 1]]\<rparr>"
    by code_simp
qed


section \<open>Properties of the Exporter\<close>













lemma length_dec [simp]: "length (dec w n) = w"
  by (induction w arbitrary: n) simp_all























section \<open>The Dataset is not modified\<close>






end
